theory Spec2Isabelle
  imports Complex_Main
begin

section \<open>The Event model of \<^verbatim>\<open>src/models/Event.ts\<close>\<close>

text \<open>
  The source file declares a Mongoose schema (\<^verbatim>\<open>eventSchema\<close>) and exports the model
  compiled from it (\<^verbatim>\<open>Event\<close>). The schema is a table of paths with their options
  (\<^verbatim>\<open>type\<close>, \<^verbatim>\<open>required\<close>, \<^verbatim>\<open>enum\<close>, \<^verbatim>\<open>default\<close>, \<^verbatim>\<open>ref\<close>); it is embedded here as
  a list, entry by entry. What the options mean is Mongoose's document validation; the
  part of it that this schema uses is written out below as an interpreter of the table.
\<close>

subsection \<open>Values and documents\<close>

text \<open>
  The schema types that occur in the file. An array type carries the type of its
  elements and the \<^verbatim>\<open>required\<close> flag of the element declaration.
\<close>

datatype schematype = TString | TNumber | TBoolean | TDate | TObjectId
  | TArray schematype bool

text \<open>
  A value is a value as it stands after Mongoose's casters have converted the input to
  the type of its path: a string, a number, a boolean, a date (a time stamp), an object id
  or an array. A value of another shape than its path's type stands for an input that the
  caster refuses. A field is either supplied with a value or omitted (\<open>None\<close>,
  JavaScript's \<^verbatim>\<open>undefined\<close>); \<^verbatim>\<open>null\<close> is not modelled.
\<close>

datatype val = VString string | VNumber real | VBoolean bool | VDate int
  | VObjectId string | VArray "val list"

type_synonym document = "string \<rightharpoonup> val"

text \<open>The \<^verbatim>\<open>required\<close> option: left out, a boolean, or a function of the document.\<close>

datatype required_opt = RequiredUnset | RequiredBool bool
  | RequiredFn "document \<Rightarrow> bool"

record path_opts =
  type_opt :: schematype
  required_opt :: required_opt
  enum_opt :: "string list option"
  default_opt :: "val option"
  ref_opt :: "string option"

type_synonym schema = "(string \<times> path_opts) list"

definition opts :: "schematype \<Rightarrow> path_opts" where
  "opts t = \<lparr>type_opt = t, required_opt = RequiredUnset, enum_opt = None,
     default_opt = None, ref_opt = None\<rparr>"

text \<open>
  JavaScript truthiness of a field read from the document, as the two \<^verbatim>\<open>required\<close>
  functions of the schema use it (\<^verbatim>\<open>!this.allDay\<close>, \<^verbatim>\<open>this.recurring\<close>).
\<close>

definition truthy :: "val option \<Rightarrow> bool" where
  "truthy v = (case v of
       None \<Rightarrow> False
     | Some (VBoolean b) \<Rightarrow> b
     | Some (VString s) \<Rightarrow> s \<noteq> []
     | Some (VNumber n) \<Rightarrow> n \<noteq> 0
     | Some _ \<Rightarrow> True)"

subsection \<open>The schema\<close>

definition eventSchema :: schema where
  "eventSchema =
   [(''title'', (opts TString)\<lparr>required_opt := RequiredBool True\<rparr>),
    (''description'', (opts TString)\<lparr>required_opt := RequiredBool True\<rparr>),
    (''attendees'', (opts TString)\<lparr>required_opt := RequiredBool False\<rparr>),
    (''location'', opts TString),
    (''latitude'', (opts TNumber)\<lparr>required_opt := RequiredBool False\<rparr>),
    (''longitude'', (opts TNumber)\<lparr>required_opt := RequiredBool False\<rparr>),
    (''recurring'', (opts TBoolean)\<lparr>required_opt := RequiredBool True,
        default_opt := Some (VBoolean False)\<rparr>),
    (''isRecurringEventException'', (opts TBoolean)\<lparr>required_opt := RequiredBool True,
        default_opt := Some (VBoolean False)\<rparr>),
    (''isBaseRecurringEvent'', (opts TBoolean)\<lparr>required_opt := RequiredBool True,
        default_opt := Some (VBoolean False)\<rparr>),
    (''recurrenceRuleId'', (opts TObjectId)\<lparr>ref_opt := Some ''RecurrenceRule'',
        required_opt := RequiredBool False\<rparr>),
    (''baseRecurringEventId'', (opts TObjectId)\<lparr>ref_opt := Some ''Event'',
        required_opt := RequiredBool False\<rparr>),
    (''allDay'', (opts TBoolean)\<lparr>required_opt := RequiredBool True\<rparr>),
    (''startDate'', (opts TDate)\<lparr>required_opt := RequiredBool True\<rparr>),
    (''endDate'', (opts TDate)\<lparr>required_opt := RequiredBool False\<rparr>),
    (''startTime'', (opts TDate)\<lparr>required_opt :=
        RequiredFn (\<lambda>this. \<not> truthy (this ''allDay''))\<rparr>),
    (''endTime'', (opts TDate)\<lparr>required_opt :=
        RequiredFn (\<lambda>this. \<not> truthy (this ''allDay''))\<rparr>),
    (''recurrance'', (opts TString)\<lparr>required_opt :=
        RequiredFn (\<lambda>this. truthy (this ''recurring'')),
        enum_opt := Some [''ONCE'', ''DAILY'', ''WEEKLY'', ''MONTHLY'', ''YEARLY''],
        default_opt := Some (VString ''ONCE'')\<rparr>),
    (''isPublic'', (opts TBoolean)\<lparr>required_opt := RequiredBool True\<rparr>),
    (''isRegisterable'', (opts TBoolean)\<lparr>required_opt := RequiredBool True\<rparr>),
    (''creatorId'', (opts TObjectId)\<lparr>ref_opt := Some ''User'',
        required_opt := RequiredBool True\<rparr>),
    (''admins'', (opts (TArray TObjectId True))\<lparr>ref_opt := Some ''User''\<rparr>),
    (''organization'', (opts TObjectId)\<lparr>ref_opt := Some ''Organization'',
        required_opt := RequiredBool True\<rparr>),
    (''status'', (opts TString)\<lparr>required_opt := RequiredBool True,
        enum_opt := Some [''ACTIVE'', ''BLOCKED'', ''DELETED''],
        default_opt := Some (VString ''ACTIVE'')\<rparr>)]"

text \<open>
  The option \<^verbatim>\<open>timestamps: true\<close> adds the paths \<^verbatim>\<open>createdAt\<close> and \<^verbatim>\<open>updatedAt\<close>, which
  Mongoose sets itself when a document is saved; like \<^verbatim>\<open>_id\<close> they are not supplied by a
  candidate and no validator is declared on them, so they are left out of the table.
\<close>

subsection \<open>Casting, defaults and validators\<close>

text \<open>The value is one that the caster of the type yields.\<close>

fun has_type :: "schematype \<Rightarrow> val \<Rightarrow> bool" where
  "has_type TString (VString s) = True"
| "has_type TNumber (VNumber n) = True"
| "has_type TBoolean (VBoolean b) = True"
| "has_type TDate (VDate d) = True"
| "has_type TObjectId (VObjectId i) = True"
| "has_type (TArray t r) (VArray vs) = list_all (has_type t) vs"
| "has_type t v = False"

text \<open>
  The check behind the \<^verbatim>\<open>required\<close> validator: the value must be there, and a string
  must not be empty.
\<close>

fun checkRequired :: "val option \<Rightarrow> bool" where
  "checkRequired None = False"
| "checkRequired (Some (VString s)) = (s \<noteq> [])"
| "checkRequired (Some v) = True"

text \<open>
  The default of a path: the declared \<^verbatim>\<open>default\<close>; an array path without one defaults to
  the empty array.
\<close>

definition defaultValue :: "path_opts \<Rightarrow> val option" where
  "defaultValue po = (case default_opt po of
       Some d \<Rightarrow> Some d
     | None \<Rightarrow> (case type_opt po of TArray t r \<Rightarrow> Some (VArray []) | _ \<Rightarrow> None))"

definition castFails :: "path_opts \<Rightarrow> val option \<Rightarrow> bool" where
  "castFails po v = (case v of None \<Rightarrow> False | Some x \<Rightarrow> \<not> has_type (type_opt po) x)"

text \<open>
  The document built from a candidate: paths outside the schema are dropped (strict
  mode), a supplied value that casts is stored, and a path left without a value takes its
  default.
\<close>

definition document :: "schema \<Rightarrow> document \<Rightarrow> document" where
  "document sch c = (\<lambda>p. case map_of sch p of
       None \<Rightarrow> None
     | Some po \<Rightarrow> (case c p of
           None \<Rightarrow> defaultValue po
         | Some v \<Rightarrow> if has_type (type_opt po) v then Some v else defaultValue po))"

text \<open>
  The reasons of a rejection. Mongoose reports a failed \<^verbatim>\<open>required\<close> validator with kind
  \<^verbatim>\<open>required\<close>, a failed \<^verbatim>\<open>enum\<close> validator with kind \<^verbatim>\<open>enum\<close> and a failed cast as a
  \<^verbatim>\<open>CastError\<close>. The names used here are those of the error taxonomy of the
  specification: a \<^verbatim>\<open>required\<close> failure is \<open>MissingRequiredField\<close> where the schema says
  \<^verbatim>\<open>required: true\<close> and \<open>ConditionalRequirementUnmet\<close> where \<^verbatim>\<open>required\<close> is a
  function; a failed cast to an object id is \<open>MalformedReference\<close>.
\<close>

datatype rule = MissingRequiredField | InvalidEnumValue | ConditionalRequirementUnmet
  | MalformedReference | CastError

text \<open>An error names a path of the schema, or an element of an array path.\<close>

datatype path = Path string | Item string nat

fun castRule :: "schematype \<Rightarrow> rule" where
  "castRule TObjectId = MalformedReference"
| "castRule (TArray t r) = castRule t"
| "castRule t = CastError"

fun requiredApplies :: "required_opt \<Rightarrow> document \<Rightarrow> bool" where
  "requiredApplies RequiredUnset this = False"
| "requiredApplies (RequiredBool b) this = b"
| "requiredApplies (RequiredFn f) this = f this"

fun requiredRule :: "required_opt \<Rightarrow> rule" where
  "requiredRule (RequiredFn f) = ConditionalRequirementUnmet"
| "requiredRule r = MissingRequiredField"

text \<open>The \<^verbatim>\<open>enum\<close> validator lets an undefined value pass.\<close>

definition enumValidator :: "string list \<Rightarrow> val option \<Rightarrow> bool" where
  "enumValidator vals v = (case v of
       None \<Rightarrow> True
     | Some (VString s) \<Rightarrow> s \<in> set vals
     | Some _ \<Rightarrow> False)"

text \<open>
  The validators of the element declaration of an array run on every element that is
  there, each under the path of its index.
\<close>

fun itemErrors :: "string \<Rightarrow> nat \<Rightarrow> val list \<Rightarrow> (path \<times> rule) list" where
  "itemErrors p i [] = []"
| "itemErrors p i (v # vs) =
     (if checkRequired (Some v) then [] else [(Item p i, MissingRequiredField)])
       @ itemErrors p (Suc i) vs"

text \<open>
  The errors of one path. A value that did not cast is reported as such and no validator
  runs on the path. Otherwise the validators run in their order, the \<^verbatim>\<open>required\<close>
  validator first, and the first one that fails gives the error of the path.
\<close>

definition pathErrors :: "document \<Rightarrow> document \<Rightarrow> string \<Rightarrow> path_opts \<Rightarrow> (path \<times> rule) list" where
  "pathErrors this c p po =
     (if castFails po (c p) then [(Path p, castRule (type_opt po))]
      else if requiredApplies (required_opt po) this \<and> \<not> checkRequired (this p)
        then [(Path p, requiredRule (required_opt po))]
      else if (case enum_opt po of None \<Rightarrow> False | Some vals \<Rightarrow> \<not> enumValidator vals (this p))
        then [(Path p, InvalidEnumValue)]
      else (case (type_opt po, this p) of
              (TArray t True, Some (VArray vs)) \<Rightarrow> itemErrors p 0 vs
            | _ \<Rightarrow> []))"

definition validationErrors :: "schema \<Rightarrow> document \<Rightarrow> (path \<times> rule) list" where
  "validationErrors sch c =
     concat (map (\<lambda>(p, po). pathErrors (document sch c) c p po) sch)"

text \<open>
  Validation of a candidate: the document with its defaults when no path has an error,
  the errors of all paths otherwise.
\<close>

definition validate :: "schema \<Rightarrow> document \<Rightarrow> (path \<times> rule) list + document" where
  "validate sch c =
     (if validationErrors sch c = [] then Inr (document sch c)
      else Inl (validationErrors sch c))"

subsection \<open>The model registry\<close>

text \<open>
  \<^verbatim>\<open>models\<close> is Mongoose's process-wide table of compiled models, by name. \<^verbatim>\<open>model\<close>
  compiles a schema into a new model and stores it under its name; it throws
  \<^verbatim>\<open>OverwriteModelError\<close> when the name is taken, which is what the exported expression
  \<^verbatim>\<open>models.Event || eventModel()\<close> avoids. A model is identified by a handle; a newly
  compiled model gets a handle that no earlier one has.
\<close>

type_synonym handle = nat

record mongoose =
  models :: "string \<rightharpoonup> handle"
  compiled :: nat

datatype mongoose_error = OverwriteModelError string

definition model :: "string \<Rightarrow> mongoose \<Rightarrow> mongoose_error + handle \<times> mongoose" where
  "model name st =
     (case models st name of
        Some h \<Rightarrow> Inl (OverwriteModelError name)
      | None \<Rightarrow> Inr (compiled st,
          st\<lparr>models := (models st)(name \<mapsto> compiled st), compiled := Suc (compiled st)\<rparr>))"

definition eventModel :: "mongoose \<Rightarrow> mongoose_error + handle \<times> mongoose" where
  "eventModel st = model ''Event'' st"

definition Event :: "mongoose \<Rightarrow> mongoose_error + handle \<times> mongoose" where
  "Event st = (case models st ''Event'' of
       Some h \<Rightarrow> Inr (h, st)
     | None \<Rightarrow> eventModel st)"

subsection \<open>Candidates used as examples\<close>

text \<open>The example of the specification: an all-day event with the required fields only.\<close>

definition standup :: document where
  "standup = [''title'' \<mapsto> VString ''Standup'', ''description'' \<mapsto> VString ''daily sync'',
     ''allDay'' \<mapsto> VBoolean True, ''startDate'' \<mapsto> VDate 1704067200000,
     ''isPublic'' \<mapsto> VBoolean True, ''isRegisterable'' \<mapsto> VBoolean False,
     ''creatorId'' \<mapsto> VObjectId ''u1'', ''organization'' \<mapsto> VObjectId ''o1'']"

text \<open>The same event, not all-day, with neither time.\<close>

definition meeting :: document where
  "meeting = standup(''allDay'' \<mapsto> VBoolean False)"

text \<open>A recurring event whose periodicity is the empty string, and one with an unknown one.\<close>

definition blankSeries :: document where
  "blankSeries = standup(''recurring'' \<mapsto> VBoolean True, ''recurrance'' \<mapsto> VString [])"

definition hourlySeries :: document where
  "hourlySeries = standup(''recurring'' \<mapsto> VBoolean True, ''recurrance'' \<mapsto> VString ''HOURLY'')"

text \<open>An event that is not recurring and still names an unknown periodicity.\<close>

definition hourlyOnce :: document where
  "hourlyOnce = standup(''recurring'' \<mapsto> VBoolean False, ''recurrance'' \<mapsto> VString ''HOURLY'')"

text \<open>An event with a status outside the enumeration.\<close>

definition archived :: document where
  "archived = standup(''status'' \<mapsto> VString ''ARCHIVED'')"

text \<open>An event with a place and a latitude, and no longitude.\<close>

definition picnic :: document where
  "picnic = standup(''location'' \<mapsto> VString ''Park'', ''latitude'' \<mapsto> VNumber 12)"

text \<open>An event that is both a base recurring event and an exception.\<close>

definition bothFlags :: document where
  "bothFlags = standup(''isBaseRecurringEvent'' \<mapsto> VBoolean True,
     ''isRecurringEventException'' \<mapsto> VBoolean True)"

text \<open>An event without a title and with an empty description.\<close>

definition untitled :: document where
  "untitled = (standup(''description'' \<mapsto> VString []))(''title'' := None)"

text \<open>An event with an empty list of admins.\<close>

definition noAdmins :: document where
  "noAdmins = standup(''admins'' \<mapsto> VArray [])"

text \<open>The registry of a process that has compiled no model yet.\<close>

definition freshProcess :: mongoose where
  "freshProcess = \<lparr>models = Map.empty, compiled = 0\<rparr>"


section \<open>Properties\<close>

subsection \<open>The interpreter\<close>

lemma itemErrors_Item: "(q, r) \<in> set (itemErrors p i vs) \<Longrightarrow> \<exists>j. q = Item p j"
  by (induction vs arbitrary: i) (auto split: if_splits)

lemma pathErrors_Path: "(Path q, r) \<in> set (pathErrors this c p po) \<Longrightarrow> q = p"
  by (auto simp: pathErrors_def
      split: if_splits prod.splits schematype.splits option.splits val.splits bool.splits
      dest: itemErrors_Item)

lemma pathErrors_Item: "(Item q i, r) \<in> set (pathErrors this c p po) \<Longrightarrow> q = p"
  by (auto simp: pathErrors_def
      split: if_splits prod.splits schematype.splits option.splits val.splits bool.splits
      dest: itemErrors_Item)

lemma Path_error_iff:
  "(Path p, r) \<in> set (validationErrors sch c) \<longleftrightarrow>
     (\<exists>po. (p, po) \<in> set sch \<and> (Path p, r) \<in> set (pathErrors (document sch c) c p po))"
  by (auto simp: validationErrors_def dest: pathErrors_Path)

lemma Item_error_iff:
  "(Item p i, r) \<in> set (validationErrors sch c) \<longleftrightarrow>
     (\<exists>po. (p, po) \<in> set sch \<and> (Item p i, r) \<in> set (pathErrors (document sch c) c p po))"
  by (auto simp: validationErrors_def dest: pathErrors_Item)

lemma validationErrors_Nil:
  "validationErrors sch c = [] \<longleftrightarrow>
     (\<forall>(p, po) \<in> set sch. pathErrors (document sch c) c p po = [])"
  by (auto simp: validationErrors_def)

lemma validate_Inr:
  "validate sch c = Inr ev \<longleftrightarrow> validationErrors sch c = [] \<and> ev = document sch c"
  by (auto simp: validate_def)

lemma validate_Inl:
  "validate sch c = Inl errs \<longleftrightarrow> errs \<noteq> [] \<and> errs = validationErrors sch c"
  by (auto simp: validate_def)

lemma rejected:
  "e \<in> set (validationErrors sch c) \<Longrightarrow> \<exists>errs. validate sch c = Inl errs \<and> e \<in> set errs"
  by (auto simp: validate_def)

lemma document_at:
  "map_of sch p = Some po \<Longrightarrow> document sch c p =
     (case c p of None \<Rightarrow> defaultValue po
      | Some v \<Rightarrow> if has_type (type_opt po) v then Some v else defaultValue po)"
  by (simp add: document_def)

lemma pathErrors_cong:
  assumes "c p = c' p" and "this p = this' p"
    and "requiredApplies (required_opt po) this = requiredApplies (required_opt po) this'"
  shows "pathErrors this c p po = pathErrors this' c' p po"
  unfolding pathErrors_def assms ..

lemma document_remove:
  assumes "map_of sch p = Some po" and "defaultValue po = None"
  shows "document sch (c(p := None)) = (document sch c)(p := None)"
  using assms by (auto simp: document_def fun_eq_iff split: option.splits)

lemma document_supply:
  assumes "map_of sch p = Some po" and "has_type (type_opt po) v"
  shows "document sch (c(p \<mapsto> v)) = (document sch c)(p \<mapsto> v)"
  using assms by (auto simp: document_def fun_eq_iff split: option.splits)

subsection \<open>The paths of the schema\<close>

lemma distinct_eventSchema: "distinct (map fst eventSchema)"
  by (simp add: eventSchema_def)

lemma in_eventSchema: "(p, po) \<in> set eventSchema \<longleftrightarrow> map_of eventSchema p = Some po"
  using distinct_eventSchema by simp

lemma requiredApplies_eventSchema:
  assumes "(p, po) \<in> set eventSchema"
    and "this ''allDay'' = this' ''allDay''" and "this ''recurring'' = this' ''recurring''"
  shows "requiredApplies (required_opt po) this = requiredApplies (required_opt po) this'"
  using assms by (auto simp: eventSchema_def opts_def)

lemma Path_error_eventSchema:
  "(Path p, r) \<in> set (validationErrors eventSchema c) \<longleftrightarrow>
     (\<exists>po. map_of eventSchema p = Some po \<and>
        (Path p, r) \<in> set (pathErrors (document eventSchema c) c p po))"
  by (simp add: Path_error_iff in_eventSchema)

lemma Item_error_eventSchema:
  "(Item p i, r) \<in> set (validationErrors eventSchema c) \<longleftrightarrow>
     (\<exists>po. map_of eventSchema p = Some po \<and>
        (Item p i, r) \<in> set (pathErrors (document eventSchema c) c p po))"
  by (simp add: Item_error_iff in_eventSchema)

lemma doc_allDay: "document eventSchema c ''allDay'' =
    (case c ''allDay'' of None \<Rightarrow> None
     | Some v \<Rightarrow> if has_type TBoolean v then Some v else None)"
  by (simp add: document_def eventSchema_def opts_def defaultValue_def split: option.split)

lemma doc_recurring: "document eventSchema c ''recurring'' =
    (case c ''recurring'' of None \<Rightarrow> Some (VBoolean False)
     | Some v \<Rightarrow> if has_type TBoolean v then Some v else Some (VBoolean False))"
  by (simp add: document_def eventSchema_def opts_def defaultValue_def split: option.split)

lemma doc_isRecurringEventException: "document eventSchema c ''isRecurringEventException'' =
    (case c ''isRecurringEventException'' of None \<Rightarrow> Some (VBoolean False)
     | Some v \<Rightarrow> if has_type TBoolean v then Some v else Some (VBoolean False))"
  by (simp add: document_def eventSchema_def opts_def defaultValue_def split: option.split)

lemma doc_isBaseRecurringEvent: "document eventSchema c ''isBaseRecurringEvent'' =
    (case c ''isBaseRecurringEvent'' of None \<Rightarrow> Some (VBoolean False)
     | Some v \<Rightarrow> if has_type TBoolean v then Some v else Some (VBoolean False))"
  by (simp add: document_def eventSchema_def opts_def defaultValue_def split: option.split)

lemma doc_startTime: "document eventSchema c ''startTime'' =
    (case c ''startTime'' of None \<Rightarrow> None
     | Some v \<Rightarrow> if has_type TDate v then Some v else None)"
  by (simp add: document_def eventSchema_def opts_def defaultValue_def split: option.split)

lemma doc_endTime: "document eventSchema c ''endTime'' =
    (case c ''endTime'' of None \<Rightarrow> None
     | Some v \<Rightarrow> if has_type TDate v then Some v else None)"
  by (simp add: document_def eventSchema_def opts_def defaultValue_def split: option.split)

lemma doc_recurrance: "document eventSchema c ''recurrance'' =
    (case c ''recurrance'' of None \<Rightarrow> Some (VString ''ONCE'')
     | Some v \<Rightarrow> if has_type TString v then Some v else Some (VString ''ONCE''))"
  by (simp add: document_def eventSchema_def opts_def defaultValue_def split: option.split)

lemma doc_status: "document eventSchema c ''status'' =
    (case c ''status'' of None \<Rightarrow> Some (VString ''ACTIVE'')
     | Some v \<Rightarrow> if has_type TString v then Some v else Some (VString ''ACTIVE''))"
  by (simp add: document_def eventSchema_def opts_def defaultValue_def split: option.split)

lemma doc_title: "document eventSchema c ''title'' =
    (case c ''title'' of None \<Rightarrow> None
     | Some v \<Rightarrow> if has_type TString v then Some v else None)"
  by (simp add: document_def eventSchema_def opts_def defaultValue_def split: option.split)

lemma doc_description: "document eventSchema c ''description'' =
    (case c ''description'' of None \<Rightarrow> None
     | Some v \<Rightarrow> if has_type TString v then Some v else None)"
  by (simp add: document_def eventSchema_def opts_def defaultValue_def split: option.split)

lemma doc_longitude: "document eventSchema c ''longitude'' =
    (case c ''longitude'' of None \<Rightarrow> None
     | Some v \<Rightarrow> if has_type TNumber v then Some v else None)"
  by (simp add: document_def eventSchema_def opts_def defaultValue_def split: option.split)

lemma doc_admins: "document eventSchema c ''admins'' =
    (case c ''admins'' of None \<Rightarrow> Some (VArray [])
     | Some v \<Rightarrow> if has_type (TArray TObjectId True) v then Some v else Some (VArray []))"
  by (simp add: document_def eventSchema_def opts_def defaultValue_def split: option.split)

lemma doc_attendees: "document eventSchema c ''attendees'' =
    (case c ''attendees'' of None \<Rightarrow> None
     | Some v \<Rightarrow> if has_type TString v then Some v else None)"
  by (simp add: document_def eventSchema_def opts_def defaultValue_def split: option.split)

lemma doc_location: "document eventSchema c ''location'' =
    (case c ''location'' of None \<Rightarrow> None
     | Some v \<Rightarrow> if has_type TString v then Some v else None)"
  by (simp add: document_def eventSchema_def opts_def defaultValue_def split: option.split)

lemma doc_latitude: "document eventSchema c ''latitude'' =
    (case c ''latitude'' of None \<Rightarrow> None
     | Some v \<Rightarrow> if has_type TNumber v then Some v else None)"
  by (simp add: document_def eventSchema_def opts_def defaultValue_def split: option.split)

lemma doc_recurrenceRuleId: "document eventSchema c ''recurrenceRuleId'' =
    (case c ''recurrenceRuleId'' of None \<Rightarrow> None
     | Some v \<Rightarrow> if has_type TObjectId v then Some v else None)"
  by (simp add: document_def eventSchema_def opts_def defaultValue_def split: option.split)

lemma doc_baseRecurringEventId: "document eventSchema c ''baseRecurringEventId'' =
    (case c ''baseRecurringEventId'' of None \<Rightarrow> None
     | Some v \<Rightarrow> if has_type TObjectId v then Some v else None)"
  by (simp add: document_def eventSchema_def opts_def defaultValue_def split: option.split)

lemma doc_startDate: "document eventSchema c ''startDate'' =
    (case c ''startDate'' of None \<Rightarrow> None
     | Some v \<Rightarrow> if has_type TDate v then Some v else None)"
  by (simp add: document_def eventSchema_def opts_def defaultValue_def split: option.split)

lemma doc_endDate: "document eventSchema c ''endDate'' =
    (case c ''endDate'' of None \<Rightarrow> None
     | Some v \<Rightarrow> if has_type TDate v then Some v else None)"
  by (simp add: document_def eventSchema_def opts_def defaultValue_def split: option.split)

lemma doc_isPublic: "document eventSchema c ''isPublic'' =
    (case c ''isPublic'' of None \<Rightarrow> None
     | Some v \<Rightarrow> if has_type TBoolean v then Some v else None)"
  by (simp add: document_def eventSchema_def opts_def defaultValue_def split: option.split)

lemma doc_isRegisterable: "document eventSchema c ''isRegisterable'' =
    (case c ''isRegisterable'' of None \<Rightarrow> None
     | Some v \<Rightarrow> if has_type TBoolean v then Some v else None)"
  by (simp add: document_def eventSchema_def opts_def defaultValue_def split: option.split)

lemma doc_creatorId: "document eventSchema c ''creatorId'' =
    (case c ''creatorId'' of None \<Rightarrow> None
     | Some v \<Rightarrow> if has_type TObjectId v then Some v else None)"
  by (simp add: document_def eventSchema_def opts_def defaultValue_def split: option.split)

lemma doc_organization: "document eventSchema c ''organization'' =
    (case c ''organization'' of None \<Rightarrow> None
     | Some v \<Rightarrow> if has_type TObjectId v then Some v else None)"
  by (simp add: document_def eventSchema_def opts_def defaultValue_def split: option.split)

lemmas doc_simps = doc_title doc_description doc_attendees doc_location doc_latitude
  doc_longitude doc_recurring doc_isRecurringEventException doc_isBaseRecurringEvent
  doc_recurrenceRuleId doc_baseRecurringEventId doc_allDay doc_startDate doc_endDate
  doc_startTime doc_endTime doc_recurrance doc_isPublic doc_isRegisterable doc_creatorId
  doc_admins doc_organization doc_status

lemmas validator_defs = pathErrors_def opts_def castFails_def truthy_def enumValidator_def

lemma validationErrors_eventSchema:
  "validationErrors eventSchema c =
     concat (map (\<lambda>(p, po). pathErrors (document eventSchema c) c p po) eventSchema)"
  by (simp add: validationErrors_def)

lemma standup_accepted: "validationErrors eventSchema standup = []"
  unfolding validationErrors_eventSchema
  apply (subst (2) eventSchema_def)
  apply (simp add: doc_simps validator_defs standup_def)
  done

lemma map_of_startTime: "map_of eventSchema ''startTime'' =
    Some ((opts TDate)\<lparr>required_opt := RequiredFn (\<lambda>this. \<not> truthy (this ''allDay''))\<rparr>)"
  by (simp add: eventSchema_def)

lemma map_of_endTime: "map_of eventSchema ''endTime'' =
    Some ((opts TDate)\<lparr>required_opt := RequiredFn (\<lambda>this. \<not> truthy (this ''allDay''))\<rparr>)"
  by (simp add: eventSchema_def)

lemma map_of_title: "map_of eventSchema ''title'' =
    Some ((opts TString)\<lparr>required_opt := RequiredBool True\<rparr>)"
  by (simp add: eventSchema_def)

lemma map_of_description: "map_of eventSchema ''description'' =
    Some ((opts TString)\<lparr>required_opt := RequiredBool True\<rparr>)"
  by (simp add: eventSchema_def)

lemma map_of_longitude: "map_of eventSchema ''longitude'' =
    Some ((opts TNumber)\<lparr>required_opt := RequiredBool False\<rparr>)"
  by (simp add: eventSchema_def)

lemma map_of_recurrance: "map_of eventSchema ''recurrance'' =
    Some ((opts TString)\<lparr>required_opt := RequiredFn (\<lambda>this. truthy (this ''recurring'')),
        enum_opt := Some [''ONCE'', ''DAILY'', ''WEEKLY'', ''MONTHLY'', ''YEARLY''],
        default_opt := Some (VString ''ONCE'')\<rparr>)"
  by (simp add: eventSchema_def)

lemma map_of_status: "map_of eventSchema ''status'' =
    Some ((opts TString)\<lparr>required_opt := RequiredBool True,
        enum_opt := Some [''ACTIVE'', ''BLOCKED'', ''DELETED''],
        default_opt := Some (VString ''ACTIVE'')\<rparr>)"
  by (simp add: eventSchema_def)

lemma map_of_admins: "map_of eventSchema ''admins'' =
    Some ((opts (TArray TObjectId True))\<lparr>ref_opt := Some ''User''\<rparr>)"
  by (simp add: eventSchema_def)

subsection \<open>Conditional requirement of the times\<close>

lemma startTime_missing:
  assumes "c ''allDay'' = Some (VBoolean False)" and "c ''startTime'' = None"
  shows "(Path ''startTime'', ConditionalRequirementUnmet) \<in> set (validationErrors eventSchema c)"
  using assms unfolding Path_error_eventSchema map_of_startTime
  by (simp add: doc_allDay doc_startTime validator_defs)

lemma endTime_missing:
  assumes "c ''allDay'' = Some (VBoolean False)" and "c ''endTime'' = None"
  shows "(Path ''endTime'', ConditionalRequirementUnmet) \<in> set (validationErrors eventSchema c)"
  using assms unfolding Path_error_eventSchema map_of_endTime
  by (simp add: doc_allDay doc_endTime validator_defs)

lemma startTime_allDay:
  assumes "c ''allDay'' = Some (VBoolean True)"
  shows "(Path ''startTime'', ConditionalRequirementUnmet) \<notin> set (validationErrors eventSchema c)"
    and "c ''startTime'' = None \<Longrightarrow> (Path ''startTime'', r) \<notin> set (validationErrors eventSchema c)"
  using assms unfolding Path_error_eventSchema map_of_startTime
  by (simp_all add: doc_allDay doc_startTime validator_defs)

lemma endTime_allDay:
  assumes "c ''allDay'' = Some (VBoolean True)"
  shows "(Path ''endTime'', ConditionalRequirementUnmet) \<notin> set (validationErrors eventSchema c)"
    and "c ''endTime'' = None \<Longrightarrow> (Path ''endTime'', r) \<notin> set (validationErrors eventSchema c)"
  using assms unfolding Path_error_eventSchema map_of_endTime
  by (simp_all add: doc_allDay doc_endTime validator_defs)

text \<open>
  C1. With \<^verbatim>\<open>allDay\<close> false, a candidate without \<^verbatim>\<open>startTime\<close> is rejected with
  \<open>ConditionalRequirementUnmet\<close> on \<^verbatim>\<open>startTime\<close>, and one without \<^verbatim>\<open>endTime\<close> with
  \<open>ConditionalRequirementUnmet\<close> on \<^verbatim>\<open>endTime\<close>. With \<^verbatim>\<open>allDay\<close> true, neither path is
  ever reported with \<open>ConditionalRequirementUnmet\<close>, and a time that is absent has no error
  at all, so that its absence is not a cause of rejection.
\<close>

theorem times_required_unless_allDay:
  "(c ''allDay'' = Some (VBoolean False) \<longrightarrow>
      (c ''startTime'' = None \<longrightarrow>
         (\<exists>errs. validate eventSchema c = Inl errs \<and>
            (Path ''startTime'', ConditionalRequirementUnmet) \<in> set errs)) \<and>
      (c ''endTime'' = None \<longrightarrow>
         (\<exists>errs. validate eventSchema c = Inl errs \<and>
            (Path ''endTime'', ConditionalRequirementUnmet) \<in> set errs))) \<and>
   (c ''allDay'' = Some (VBoolean True) \<longrightarrow>
      (Path ''startTime'', ConditionalRequirementUnmet) \<notin> set (validationErrors eventSchema c) \<and>
      (Path ''endTime'', ConditionalRequirementUnmet) \<notin> set (validationErrors eventSchema c) \<and>
      (c ''startTime'' = None \<longrightarrow>
         (\<forall>r. (Path ''startTime'', r) \<notin> set (validationErrors eventSchema c))) \<and>
      (c ''endTime'' = None \<longrightarrow>
         (\<forall>r. (Path ''endTime'', r) \<notin> set (validationErrors eventSchema c))))"
proof (intro conjI impI allI)
  assume "c ''allDay'' = Some (VBoolean False)" and "c ''startTime'' = None"
  then show "\<exists>errs. validate eventSchema c = Inl errs \<and>
      (Path ''startTime'', ConditionalRequirementUnmet) \<in> set errs"
    by (intro rejected startTime_missing)
next
  assume "c ''allDay'' = Some (VBoolean False)" and "c ''endTime'' = None"
  then show "\<exists>errs. validate eventSchema c = Inl errs \<and>
      (Path ''endTime'', ConditionalRequirementUnmet) \<in> set errs"
    by (intro rejected endTime_missing)
qed (simp_all add: startTime_allDay endTime_allDay)

theorem times_required_unless_allDay_witness:
  "(\<exists>errs. validate eventSchema meeting = Inl errs \<and>
      (Path ''startTime'', ConditionalRequirementUnmet) \<in> set errs \<and>
      (Path ''endTime'', ConditionalRequirementUnmet) \<in> set errs) \<and>
   validate eventSchema standup = Inr (document eventSchema standup) \<and>
   standup ''allDay'' = Some (VBoolean True) \<and>
   standup ''startTime'' = None \<and> standup ''endTime'' = None \<and>
   (Path ''startTime'', ConditionalRequirementUnmet) \<notin> set (validationErrors eventSchema standup)"
proof -
  have m: "meeting ''allDay'' = Some (VBoolean False)" "meeting ''startTime'' = None"
    "meeting ''endTime'' = None"
    by (simp_all add: meeting_def standup_def)
  have s: "standup ''allDay'' = Some (VBoolean True)" "standup ''startTime'' = None"
    "standup ''endTime'' = None"
    by (simp_all add: standup_def)
  from times_required_unless_allDay [of meeting] m
  have "(Path ''startTime'', ConditionalRequirementUnmet) \<in> set (validationErrors eventSchema meeting)"
    and "(Path ''endTime'', ConditionalRequirementUnmet) \<in> set (validationErrors eventSchema meeting)"
    by (auto simp: validate_Inl)
  then have "\<exists>errs. validate eventSchema meeting = Inl errs \<and>
      (Path ''startTime'', ConditionalRequirementUnmet) \<in> set errs \<and>
      (Path ''endTime'', ConditionalRequirementUnmet) \<in> set errs"
    by (auto simp: validate_def)
  moreover have "validate eventSchema standup = Inr (document eventSchema standup)"
    by (simp add: validate_def standup_accepted)
  moreover from times_required_unless_allDay [of standup] s
  have "(Path ''startTime'', ConditionalRequirementUnmet) \<notin> set (validationErrors eventSchema standup)"
    by simp
  ultimately show ?thesis using s by simp
qed

subsection \<open>Title and description\<close>

lemma title_missing:
  assumes "c ''title'' = None \<or> c ''title'' = Some (VString [])"
  shows "(Path ''title'', MissingRequiredField) \<in> set (validationErrors eventSchema c)"
  using assms unfolding Path_error_eventSchema map_of_title
  by (auto simp: doc_title validator_defs)

lemma description_missing:
  assumes "c ''description'' = None \<or> c ''description'' = Some (VString [])"
  shows "(Path ''description'', MissingRequiredField) \<in> set (validationErrors eventSchema c)"
  using assms unfolding Path_error_eventSchema map_of_description
  by (auto simp: doc_description validator_defs)

text \<open>
  C8. A candidate whose \<^verbatim>\<open>title\<close> is absent or the empty string is rejected with
  \<open>MissingRequiredField\<close> on \<^verbatim>\<open>title\<close>, and likewise for \<^verbatim>\<open>description\<close>.
\<close>

theorem title_description_required_nonempty:
  "(c ''title'' = None \<or> c ''title'' = Some (VString []) \<longrightarrow>
      (\<exists>errs. validate eventSchema c = Inl errs \<and>
         (Path ''title'', MissingRequiredField) \<in> set errs)) \<and>
   (c ''description'' = None \<or> c ''description'' = Some (VString []) \<longrightarrow>
      (\<exists>errs. validate eventSchema c = Inl errs \<and>
         (Path ''description'', MissingRequiredField) \<in> set errs))"
  by (intro conjI impI rejected title_missing description_missing)

theorem title_description_required_nonempty_witness:
  "untitled ''title'' = None \<and> untitled ''description'' = Some (VString []) \<and>
   (\<exists>errs. validate eventSchema untitled = Inl errs \<and>
      (Path ''title'', MissingRequiredField) \<in> set errs \<and>
      (Path ''description'', MissingRequiredField) \<in> set errs)"
proof -
  have u: "untitled ''title'' = None" "untitled ''description'' = Some (VString [])"
    by (simp_all add: untitled_def standup_def)
  from title_description_required_nonempty [of untitled] u
  have "(Path ''title'', MissingRequiredField) \<in> set (validationErrors eventSchema untitled)"
    and "(Path ''description'', MissingRequiredField) \<in> set (validationErrors eventSchema untitled)"
    by (auto simp: validate_Inl)
  then show ?thesis using u by (auto simp: validate_def)
qed

subsection \<open>Defaults\<close>

text \<open>
  C3. When validation succeeds, each of \<^verbatim>\<open>recurring\<close>, \<^verbatim>\<open>isRecurringEventException\<close>,
  \<^verbatim>\<open>isBaseRecurringEvent\<close>, \<^verbatim>\<open>recurrance\<close> and \<^verbatim>\<open>status\<close> that the candidate omits has
  its default in the produced event: \<open>false\<close>, \<open>false\<close>, \<open>false\<close>, \<open>ONCE\<close> and \<open>ACTIVE\<close>.
\<close>

theorem defaults_applied:
  assumes "validate eventSchema c = Inr ev"
  shows "(c ''recurring'' = None \<longrightarrow> ev ''recurring'' = Some (VBoolean False)) \<and>
    (c ''isRecurringEventException'' = None \<longrightarrow>
       ev ''isRecurringEventException'' = Some (VBoolean False)) \<and>
    (c ''isBaseRecurringEvent'' = None \<longrightarrow>
       ev ''isBaseRecurringEvent'' = Some (VBoolean False)) \<and>
    (c ''recurrance'' = None \<longrightarrow> ev ''recurrance'' = Some (VString ''ONCE'')) \<and>
    (c ''status'' = None \<longrightarrow> ev ''status'' = Some (VString ''ACTIVE''))"
proof -
  from assms have "ev = document eventSchema c"
    by (simp add: validate_Inr)
  then show ?thesis
    by (simp add: doc_recurring doc_isRecurringEventException doc_isBaseRecurringEvent
        doc_recurrance doc_status)
qed

theorem defaults_applied_witness:
  "validate eventSchema standup = Inr (document eventSchema standup) \<and>
   document eventSchema standup ''recurring'' = Some (VBoolean False) \<and>
   document eventSchema standup ''isRecurringEventException'' = Some (VBoolean False) \<and>
   document eventSchema standup ''isBaseRecurringEvent'' = Some (VBoolean False) \<and>
   document eventSchema standup ''recurrance'' = Some (VString ''ONCE'') \<and>
   document eventSchema standup ''status'' = Some (VString ''ACTIVE'')"
proof -
  have v: "validate eventSchema standup = Inr (document eventSchema standup)"
    by (simp add: validate_def standup_accepted)
  have "standup ''recurring'' = None" "standup ''isRecurringEventException'' = None"
    "standup ''isBaseRecurringEvent'' = None" "standup ''recurrance'' = None"
    "standup ''status'' = None"
    by (simp_all add: standup_def)
  with defaults_applied [OF v] v show ?thesis
    by simp
qed

subsection \<open>Status\<close>

lemma status_error:
  assumes "c ''status'' = Some v"
    and "v \<notin> {VString ''ACTIVE'', VString ''BLOCKED'', VString ''DELETED''}"
  shows "\<exists>r. (Path ''status'', r) \<in> set (validationErrors eventSchema c)"
  using assms unfolding Path_error_eventSchema map_of_status
  by (cases v) (auto simp: doc_status validator_defs)

lemma status_of_valid:
  assumes "validationErrors eventSchema c = []"
  shows "document eventSchema c ''status'' \<in>
    {Some (VString ''ACTIVE''), Some (VString ''BLOCKED''), Some (VString ''DELETED'')}"
proof -
  have "(''status'', the (map_of eventSchema ''status'')) \<in> set eventSchema"
    by (simp add: in_eventSchema map_of_status)
  with assms have "pathErrors (document eventSchema c) c ''status''
      (the (map_of eventSchema ''status'')) = []"
    unfolding validationErrors_Nil by blast
  then show ?thesis
    by (auto simp: map_of_status doc_status validator_defs
        split: option.splits if_splits val.splits)
qed

text \<open>
  C4. The status of a validated event is one of \<open>ACTIVE\<close>, \<open>BLOCKED\<close> and \<open>DELETED\<close>; a
  candidate that supplies any other value for \<^verbatim>\<open>status\<close> is rejected, with an error on
  \<^verbatim>\<open>status\<close>; and when the candidate omits \<^verbatim>\<open>status\<close>, the validated event has status
  \<open>ACTIVE\<close>.
\<close>

theorem status_enumerated_default_active:
  "(validate eventSchema c = Inr ev \<longrightarrow>
      ev ''status'' \<in>
        {Some (VString ''ACTIVE''), Some (VString ''BLOCKED''), Some (VString ''DELETED'')}) \<and>
   (c ''status'' = Some v \<and>
    v \<notin> {VString ''ACTIVE'', VString ''BLOCKED'', VString ''DELETED''} \<longrightarrow>
      (\<exists>errs r. validate eventSchema c = Inl errs \<and> (Path ''status'', r) \<in> set errs)) \<and>
   (validate eventSchema c = Inr ev \<and> c ''status'' = None \<longrightarrow>
      ev ''status'' = Some (VString ''ACTIVE''))"
proof (intro conjI impI)
  assume "validate eventSchema c = Inr ev"
  then show "ev ''status'' \<in>
      {Some (VString ''ACTIVE''), Some (VString ''BLOCKED''), Some (VString ''DELETED'')}"
    using status_of_valid [of c] by (simp add: validate_Inr)
next
  assume "c ''status'' = Some v \<and>
    v \<notin> {VString ''ACTIVE'', VString ''BLOCKED'', VString ''DELETED''}"
  then obtain r where "(Path ''status'', r) \<in> set (validationErrors eventSchema c)"
    using status_error [of c v] by blast
  from rejected [OF this]
  show "\<exists>errs r. validate eventSchema c = Inl errs \<and> (Path ''status'', r) \<in> set errs"
    by blast
next
  assume "validate eventSchema c = Inr ev \<and> c ''status'' = None"
  then show "ev ''status'' = Some (VString ''ACTIVE'')"
    by (simp add: validate_Inr doc_status)
qed

theorem status_enumerated_default_active_witness:
  "validate eventSchema standup = Inr (document eventSchema standup) \<and>
   standup ''status'' = None \<and>
   document eventSchema standup ''status'' = Some (VString ''ACTIVE'') \<and>
   archived ''status'' = Some (VString ''ARCHIVED'') \<and>
   (\<exists>errs r. validate eventSchema archived = Inl errs \<and> (Path ''status'', r) \<in> set errs)"
proof -
  have v: "validate eventSchema standup = Inr (document eventSchema standup)"
    by (simp add: validate_def standup_accepted)
  have n: "standup ''status'' = None"
    by (simp add: standup_def)
  have a: "archived ''status'' = Some (VString ''ARCHIVED'')"
    by (simp add: archived_def)
  from status_enumerated_default_active
    [of standup "document eventSchema standup" "VString ''ARCHIVED''"] v n
  have "document eventSchema standup ''status'' = Some (VString ''ACTIVE'')"
    by simp
  moreover from status_enumerated_default_active [of archived _ "VString ''ARCHIVED''"] a
  have "\<exists>errs r. validate eventSchema archived = Inl errs \<and> (Path ''status'', r) \<in> set errs"
    by simp
  ultimately show ?thesis using v n a by simp
qed

subsection \<open>Periodicity\<close>

lemma recurrance_error:
  assumes "c ''recurrance'' = Some v"
    and "v \<notin> {VString ''ONCE'', VString ''DAILY'', VString ''WEEKLY'', VString ''MONTHLY'',
      VString ''YEARLY''}"
  shows "\<exists>r. (Path ''recurrance'', r) \<in> set (validationErrors eventSchema c)"
  using assms unfolding Path_error_eventSchema map_of_recurrance
  by (cases v) (auto simp: doc_recurrance validator_defs)

lemma recurrance_enum_error:
  assumes "c ''recurrance'' = Some (VString s)"
    and "s \<notin> set [''ONCE'', ''DAILY'', ''WEEKLY'', ''MONTHLY'', ''YEARLY'']"
    and "s \<noteq> [] \<or> c ''recurring'' = Some (VBoolean False) \<or> c ''recurring'' = None"
  shows "(Path ''recurrance'', InvalidEnumValue) \<in> set (validationErrors eventSchema c)"
  using assms unfolding Path_error_eventSchema map_of_recurrance
  by (auto simp: doc_recurrance doc_recurring validator_defs)

lemma recurrance_blank_error:
  assumes "c ''recurrance'' = Some (VString [])" and "c ''recurring'' = Some (VBoolean True)"
  shows "(Path ''recurrance'', ConditionalRequirementUnmet) \<in> set (validationErrors eventSchema c)"
    and "(Path ''recurrance'', InvalidEnumValue) \<notin> set (validationErrors eventSchema c)"
  using assms unfolding Path_error_eventSchema map_of_recurrance
  by (auto simp: doc_recurrance doc_recurring validator_defs)

lemma recurrance_of_valid:
  assumes "validationErrors eventSchema c = []"
  shows "document eventSchema c ''recurrance'' \<in>
    {Some (VString ''ONCE''), Some (VString ''DAILY''), Some (VString ''WEEKLY''),
     Some (VString ''MONTHLY''), Some (VString ''YEARLY'')}"
proof -
  have "(''recurrance'', the (map_of eventSchema ''recurrance'')) \<in> set eventSchema"
    by (simp add: in_eventSchema map_of_recurrance)
  with assms have "pathErrors (document eventSchema c) c ''recurrance''
      (the (map_of eventSchema ''recurrance'')) = []"
    unfolding validationErrors_Nil by blast
  then show ?thesis
    by (auto simp: map_of_recurrance doc_recurrance validator_defs
        split: option.splits if_splits val.splits)
qed

lemma blankSeries_errors:
  "validationErrors eventSchema blankSeries = [(Path ''recurrance'', ConditionalRequirementUnmet)]"
  unfolding validationErrors_eventSchema
  apply (subst (2) eventSchema_def)
  apply (simp add: doc_simps validator_defs blankSeries_def standup_def)
  done

text \<open>
  C2, as stated, fails: a recurring event whose \<^verbatim>\<open>recurrance\<close> is the empty string (a value
  outside the five) is rejected, but the one error of the path is that of the
  \<^verbatim>\<open>required\<close> validator, not \<open>InvalidEnumValue\<close>.
\<close>

theorem recurring_blank_recurrance_counterexample:
  "blankSeries ''recurring'' = Some (VBoolean True) \<and>
   blankSeries ''recurrance'' = Some (VString []) \<and>
   [] \<notin> set [''ONCE'', ''DAILY'', ''WEEKLY'', ''MONTHLY'', ''YEARLY''] \<and>
   validate eventSchema blankSeries = Inl [(Path ''recurrance'', ConditionalRequirementUnmet)]"
  by (simp add: validate_def blankSeries_errors) (simp add: blankSeries_def)

text \<open>
  C2, amended. A candidate with \<^verbatim>\<open>recurring\<close> true whose \<^verbatim>\<open>recurrance\<close> is a string outside
  the five values is rejected on the path \<^verbatim>\<open>recurrance\<close>: with \<open>InvalidEnumValue\<close> when the
  string is not empty, and with \<open>ConditionalRequirementUnmet\<close> when it is empty (the
  \<^verbatim>\<open>required\<close> validator runs first, and only the first failure of a path is reported).
  Every validated event has a \<^verbatim>\<open>recurrance\<close> among the five values.
\<close>

theorem recurring_needs_enumerated_recurrance:
  "(c ''recurring'' = Some (VBoolean True) \<and> c ''recurrance'' = Some (VString s) \<and>
    s \<notin> set [''ONCE'', ''DAILY'', ''WEEKLY'', ''MONTHLY'', ''YEARLY''] \<longrightarrow>
      (\<exists>errs. validate eventSchema c = Inl errs \<and>
         (Path ''recurrance'',
            if s = [] then ConditionalRequirementUnmet else InvalidEnumValue) \<in> set errs)) \<and>
   (validate eventSchema c = Inr ev \<longrightarrow>
      ev ''recurrance'' \<in>
        {Some (VString ''ONCE''), Some (VString ''DAILY''), Some (VString ''WEEKLY''),
         Some (VString ''MONTHLY''), Some (VString ''YEARLY'')})"
proof (intro conjI impI)
  assume a: "c ''recurring'' = Some (VBoolean True) \<and> c ''recurrance'' = Some (VString s) \<and>
    s \<notin> set [''ONCE'', ''DAILY'', ''WEEKLY'', ''MONTHLY'', ''YEARLY'']"
  show "\<exists>errs. validate eventSchema c = Inl errs \<and>
      (Path ''recurrance'',
         if s = [] then ConditionalRequirementUnmet else InvalidEnumValue) \<in> set errs"
  proof (cases "s = []")
    case True
    with a show ?thesis
      using rejected [OF recurrance_blank_error(1) [of c]] by simp
  next
    case False
    with a show ?thesis
      using rejected [OF recurrance_enum_error [of c s]] by simp
  qed
next
  assume "validate eventSchema c = Inr ev"
  then show "ev ''recurrance'' \<in>
      {Some (VString ''ONCE''), Some (VString ''DAILY''), Some (VString ''WEEKLY''),
       Some (VString ''MONTHLY''), Some (VString ''YEARLY'')}"
    using recurrance_of_valid [of c] by (simp add: validate_Inr)
qed

theorem recurring_needs_enumerated_recurrance_witness:
  "hourlySeries ''recurring'' = Some (VBoolean True) \<and>
   hourlySeries ''recurrance'' = Some (VString ''HOURLY'') \<and>
   (\<exists>errs. validate eventSchema hourlySeries = Inl errs \<and>
      (Path ''recurrance'', InvalidEnumValue) \<in> set errs) \<and>
   validate eventSchema standup = Inr (document eventSchema standup) \<and>
   document eventSchema standup ''recurrance'' = Some (VString ''ONCE'')"
proof -
  have h: "hourlySeries ''recurring'' = Some (VBoolean True)"
    "hourlySeries ''recurrance'' = Some (VString ''HOURLY'')"
    by (simp_all add: hourlySeries_def)
  have v: "validate eventSchema standup = Inr (document eventSchema standup)"
    by (simp add: validate_def standup_accepted)
  from recurring_needs_enumerated_recurrance [of hourlySeries "''HOURLY''"] h
  have "\<exists>errs. validate eventSchema hourlySeries = Inl errs \<and>
      (Path ''recurrance'', InvalidEnumValue) \<in> set errs"
    by simp
  moreover from recurring_needs_enumerated_recurrance [of standup _ "document eventSchema standup"] v
  have "document eventSchema standup ''recurrance'' \<in>
      {Some (VString ''ONCE''), Some (VString ''DAILY''), Some (VString ''WEEKLY''),
       Some (VString ''MONTHLY''), Some (VString ''YEARLY'')}"
    by simp
  moreover have "document eventSchema standup ''recurrance'' = Some (VString ''ONCE'')"
    by (simp add: doc_recurrance standup_def)
  ultimately show ?thesis using h v by simp
qed

text \<open>
  C9. A candidate that supplies a \<^verbatim>\<open>recurrance\<close> outside the five values is rejected, with
  an error on \<^verbatim>\<open>recurrance\<close>, whatever \<^verbatim>\<open>recurring\<close> is; when \<^verbatim>\<open>recurring\<close> is false or
  omitted and the value is a string, the error is \<open>InvalidEnumValue\<close>.
\<close>

theorem recurrance_enum_unconditional:
  "(c ''recurrance'' = Some v \<and>
    v \<notin> {VString ''ONCE'', VString ''DAILY'', VString ''WEEKLY'', VString ''MONTHLY'',
      VString ''YEARLY''} \<longrightarrow>
      (\<exists>errs r. validate eventSchema c = Inl errs \<and> (Path ''recurrance'', r) \<in> set errs)) \<and>
   (c ''recurrance'' = Some (VString s) \<and>
    s \<notin> set [''ONCE'', ''DAILY'', ''WEEKLY'', ''MONTHLY'', ''YEARLY''] \<and>
    (c ''recurring'' = Some (VBoolean False) \<or> c ''recurring'' = None) \<longrightarrow>
      (\<exists>errs. validate eventSchema c = Inl errs \<and>
         (Path ''recurrance'', InvalidEnumValue) \<in> set errs))"
proof (intro conjI impI)
  assume "c ''recurrance'' = Some v \<and>
    v \<notin> {VString ''ONCE'', VString ''DAILY'', VString ''WEEKLY'', VString ''MONTHLY'',
      VString ''YEARLY''}"
  then obtain r where "(Path ''recurrance'', r) \<in> set (validationErrors eventSchema c)"
    using recurrance_error [of c v] by blast
  from rejected [OF this]
  show "\<exists>errs r. validate eventSchema c = Inl errs \<and> (Path ''recurrance'', r) \<in> set errs"
    by blast
next
  assume "c ''recurrance'' = Some (VString s) \<and>
    s \<notin> set [''ONCE'', ''DAILY'', ''WEEKLY'', ''MONTHLY'', ''YEARLY''] \<and>
    (c ''recurring'' = Some (VBoolean False) \<or> c ''recurring'' = None)"
  then have "(Path ''recurrance'', InvalidEnumValue) \<in> set (validationErrors eventSchema c)"
    by (intro recurrance_enum_error) auto
  from rejected [OF this]
  show "\<exists>errs. validate eventSchema c = Inl errs \<and>
      (Path ''recurrance'', InvalidEnumValue) \<in> set errs" .
qed

theorem recurrance_enum_unconditional_witness:
  "hourlyOnce ''recurring'' = Some (VBoolean False) \<and>
   hourlyOnce ''recurrance'' = Some (VString ''HOURLY'') \<and>
   (\<exists>errs. validate eventSchema hourlyOnce = Inl errs \<and>
      (Path ''recurrance'', InvalidEnumValue) \<in> set errs)"
proof -
  have h: "hourlyOnce ''recurring'' = Some (VBoolean False)"
    "hourlyOnce ''recurrance'' = Some (VString ''HOURLY'')"
    by (simp_all add: hourlyOnce_def)
  from recurrance_enum_unconditional [of hourlyOnce "VString ''HOURLY''" "''HOURLY''"] h
  show ?thesis by simp
qed

subsection \<open>Longitude\<close>

lemma document_longitude_removed:
  "document eventSchema (c(''longitude'' := None)) = (document eventSchema c)(''longitude'' := None)"
  by (rule document_remove [OF map_of_longitude]) (simp add: defaultValue_def opts_def)

lemma longitude_omitted:
  assumes "c ''longitude'' = None"
  shows "(Path ''longitude'', r) \<notin> set (validationErrors eventSchema c)"
  using assms unfolding Path_error_eventSchema map_of_longitude
  by (simp add: doc_longitude validator_defs)

lemma remove_longitude:
  assumes "validationErrors eventSchema c = []"
  shows "validationErrors eventSchema (c(''longitude'' := None)) = []"
  unfolding validationErrors_Nil
proof (intro ballI, clarify)
  fix p po assume in_schema: "(p, po) \<in> set eventSchema"
  let ?c = "c(''longitude'' := None)"
  show "pathErrors (document eventSchema ?c) ?c p po = []"
  proof (cases "p = ''longitude''")
    case True
    with in_schema have "po = (opts TNumber)\<lparr>required_opt := RequiredBool False\<rparr>"
      by (simp add: in_eventSchema map_of_longitude)
    with True show ?thesis
      by (simp add: document_longitude_removed validator_defs)
  next
    case False
    have "pathErrors (document eventSchema ?c) ?c p po = pathErrors (document eventSchema c) c p po"
      using False
      by (intro pathErrors_cong requiredApplies_eventSchema [OF in_schema])
        (simp_all add: document_longitude_removed)
    also have "\<dots> = []"
      using assms in_schema unfolding validationErrors_Nil by blast
    finally show ?thesis .
  qed
qed

lemma picnic_accepted: "validationErrors eventSchema picnic = []"
  unfolding validationErrors_eventSchema
  apply (subst (2) eventSchema_def)
  apply (simp add: doc_simps validator_defs picnic_def standup_def)
  done

text \<open>
  C6, as stated, fails: a candidate that omits \<^verbatim>\<open>longitude\<close> is accepted.
\<close>

theorem longitude_omitted_counterexample:
  "picnic ''longitude'' = None \<and>
   validate eventSchema picnic = Inr (document eventSchema picnic)"
  by (simp add: validate_def picnic_accepted) (simp add: picnic_def standup_def)

text \<open>
  C6, amended. \<^verbatim>\<open>longitude\<close> is optional in the schema, which declares it with
  \<^verbatim>\<open>required: false\<close> as it does \<^verbatim>\<open>latitude\<close>: a candidate that omits \<^verbatim>\<open>longitude\<close> has no
  error on that path, and a candidate that is accepted is still accepted, with the same
  event but for \<^verbatim>\<open>longitude\<close>, when its \<^verbatim>\<open>longitude\<close> is taken away.
\<close>

theorem longitude_optional:
  "map_of eventSchema ''longitude'' = Some ((opts TNumber)\<lparr>required_opt := RequiredBool False\<rparr>) \<and>
   (c ''longitude'' = None \<longrightarrow>
      (\<forall>r. (Path ''longitude'', r) \<notin> set (validationErrors eventSchema c))) \<and>
   (validate eventSchema c = Inr ev \<longrightarrow>
      validate eventSchema (c(''longitude'' := None)) = Inr (ev(''longitude'' := None)))"
proof (intro conjI impI allI)
  show "map_of eventSchema ''longitude'' =
      Some ((opts TNumber)\<lparr>required_opt := RequiredBool False\<rparr>)"
    by (rule map_of_longitude)
next
  fix r assume "c ''longitude'' = None"
  then show "(Path ''longitude'', r) \<notin> set (validationErrors eventSchema c)"
    by (rule longitude_omitted)
next
  assume "validate eventSchema c = Inr ev"
  then have "validationErrors eventSchema c = []" and "ev = document eventSchema c"
    by (simp_all add: validate_Inr)
  moreover note document_longitude_removed [of c]
  ultimately show "validate eventSchema (c(''longitude'' := None)) =
      Inr (ev(''longitude'' := None))"
    by (simp add: validate_Inr remove_longitude)
qed

theorem longitude_optional_witness:
  "picnic ''longitude'' = None \<and>
   (Path ''longitude'', MissingRequiredField) \<notin> set (validationErrors eventSchema picnic) \<and>
   validate eventSchema picnic = Inr (document eventSchema picnic) \<and>
   validate eventSchema (picnic(''longitude'' := None)) =
     Inr ((document eventSchema picnic)(''longitude'' := None))"
proof -
  have n: "picnic ''longitude'' = None"
    by (simp add: picnic_def standup_def)
  have v: "validate eventSchema picnic = Inr (document eventSchema picnic)"
    by (simp add: validate_def picnic_accepted)
  from longitude_optional [of picnic "document eventSchema picnic"] n v
  show ?thesis by simp
qed

subsection \<open>The two recurrence flags\<close>

lemma bothFlags_accepted: "validationErrors eventSchema bothFlags = []"
  unfolding validationErrors_eventSchema
  apply (subst (2) eventSchema_def)
  apply (simp add: doc_simps validator_defs bothFlags_def standup_def)
  done

text \<open>
  C7. There is a candidate with \<^verbatim>\<open>isBaseRecurringEvent\<close> and \<^verbatim>\<open>isRecurringEventException\<close>
  both true that validation accepts, and the validated event has both flags true.
\<close>

theorem both_recurrence_flags_accepted:
  "\<exists>c ev. c ''isBaseRecurringEvent'' = Some (VBoolean True) \<and>
     c ''isRecurringEventException'' = Some (VBoolean True) \<and>
     validate eventSchema c = Inr ev \<and>
     ev ''isBaseRecurringEvent'' = Some (VBoolean True) \<and>
     ev ''isRecurringEventException'' = Some (VBoolean True)"
proof (intro exI conjI)
  show "validate eventSchema bothFlags = Inr (document eventSchema bothFlags)"
    by (simp add: validate_def bothFlags_accepted)
qed (simp_all add: bothFlags_def doc_isBaseRecurringEvent doc_isRecurringEventException)

subsection \<open>Admins\<close>

lemma document_admins_emptied:
  "document eventSchema (c(''admins'' \<mapsto> VArray [])) =
     (document eventSchema c)(''admins'' \<mapsto> VArray [])"
  by (rule document_supply [OF map_of_admins]) (simp add: opts_def)

lemma admins_empty:
  assumes "c ''admins'' = Some (VArray [])"
  shows "(Path ''admins'', r) \<notin> set (validationErrors eventSchema c)"
    and "(Item ''admins'' i, r) \<notin> set (validationErrors eventSchema c)"
  using assms unfolding Path_error_eventSchema Item_error_eventSchema map_of_admins
  by (simp_all add: doc_admins validator_defs)

lemma empty_admins:
  assumes "validationErrors eventSchema c = []"
  shows "validationErrors eventSchema (c(''admins'' \<mapsto> VArray [])) = []"
  unfolding validationErrors_Nil
proof (intro ballI, clarify)
  fix p po assume in_schema: "(p, po) \<in> set eventSchema"
  let ?c = "c(''admins'' \<mapsto> VArray [])"
  show "pathErrors (document eventSchema ?c) ?c p po = []"
  proof (cases "p = ''admins''")
    case True
    with in_schema have "po = (opts (TArray TObjectId True))\<lparr>ref_opt := Some ''User''\<rparr>"
      by (simp add: in_eventSchema map_of_admins)
    with True show ?thesis
      by (simp add: document_admins_emptied validator_defs)
  next
    case False
    have "pathErrors (document eventSchema ?c) ?c p po = pathErrors (document eventSchema c) c p po"
      using False
      by (intro pathErrors_cong requiredApplies_eventSchema [OF in_schema])
        (simp_all add: document_admins_emptied)
    also have "\<dots> = []"
      using assms in_schema unfolding validationErrors_Nil by blast
    finally show ?thesis .
  qed
qed

text \<open>
  C10. A candidate whose \<^verbatim>\<open>admins\<close> is the empty array has no error on \<^verbatim>\<open>admins\<close> nor on
  any of its elements, and a candidate that is accepted is still accepted when its
  \<^verbatim>\<open>admins\<close> is replaced by the empty array: the validated event is the same but for its
  empty \<^verbatim>\<open>admins\<close>.
\<close>

theorem admins_may_be_empty:
  "(c ''admins'' = Some (VArray []) \<longrightarrow>
      (\<forall>r. (Path ''admins'', r) \<notin> set (validationErrors eventSchema c)) \<and>
      (\<forall>i r. (Item ''admins'' i, r) \<notin> set (validationErrors eventSchema c))) \<and>
   (validate eventSchema c = Inr ev \<longrightarrow>
      validate eventSchema (c(''admins'' \<mapsto> VArray [])) = Inr (ev(''admins'' \<mapsto> VArray [])))"
proof (intro conjI impI allI)
  assume "validate eventSchema c = Inr ev"
  then have "validationErrors eventSchema c = []" and "ev = document eventSchema c"
    by (simp_all add: validate_Inr)
  moreover note document_admins_emptied [of c]
  ultimately show "validate eventSchema (c(''admins'' \<mapsto> VArray [])) =
      Inr (ev(''admins'' \<mapsto> VArray []))"
    by (simp add: validate_Inr empty_admins)
qed (simp_all add: admins_empty)

theorem admins_may_be_empty_witness:
  "noAdmins ''admins'' = Some (VArray []) \<and>
   validate eventSchema standup = Inr (document eventSchema standup) \<and>
   validate eventSchema noAdmins = Inr ((document eventSchema standup)(''admins'' \<mapsto> VArray [])) \<and>
   (Path ''admins'', MissingRequiredField) \<notin> set (validationErrors eventSchema noAdmins)"
proof -
  have a: "noAdmins ''admins'' = Some (VArray [])"
    by (simp add: noAdmins_def)
  have v: "validate eventSchema standup = Inr (document eventSchema standup)"
    by (simp add: validate_def standup_accepted)
  from admins_may_be_empty [of standup "document eventSchema standup"] v
  have "validate eventSchema noAdmins =
      Inr ((document eventSchema standup)(''admins'' \<mapsto> VArray []))"
    by (simp add: noAdmins_def)
  moreover from admins_may_be_empty [of noAdmins] a
  have "(Path ''admins'', MissingRequiredField) \<notin> set (validationErrors eventSchema noAdmins)"
    by simp
  ultimately show ?thesis using a v by simp
qed

subsection \<open>The exported model\<close>

text \<open>
  C5. The exported expression always yields a model: the one already registered under the
  name \<^verbatim>\<open>Event\<close>, with the registry unchanged, or else a newly compiled one, which it
  registers. Evaluated again in the registry it leaves, it yields the same handle and
  leaves the same registry.
\<close>

theorem Event_idempotent:
  "(\<exists>h st'. Event st = Inr (h, st')) \<and>
   (models st ''Event'' = Some h \<longrightarrow> Event st = Inr (h, st)) \<and>
   (models st ''Event'' = None \<longrightarrow>
      (\<exists>st'. Event st = Inr (compiled st, st') \<and> models st' ''Event'' = Some (compiled st))) \<and>
   (Event st = Inr (h, st') \<longrightarrow> Event st' = Inr (h, st'))"
  by (auto simp: Event_def eventModel_def model_def split: option.splits)

theorem Event_idempotent_witness:
  "models freshProcess ''Event'' = None \<and>
   Event freshProcess = Inr (0, \<lparr>models = [''Event'' \<mapsto> 0], compiled = 1\<rparr>) \<and>
   Event \<lparr>models = [''Event'' \<mapsto> 0], compiled = 1\<rparr> =
     Inr (0, \<lparr>models = [''Event'' \<mapsto> 0], compiled = 1\<rparr>)"
proof -
  have e: "Event freshProcess = Inr (0, \<lparr>models = [''Event'' \<mapsto> 0], compiled = 1\<rparr>)"
    by (simp add: Event_def eventModel_def model_def freshProcess_def)
  from Event_idempotent [of freshProcess 0 "\<lparr>models = [''Event'' \<mapsto> 0], compiled = 1\<rparr>"] e
  show ?thesis by (simp add: freshProcess_def)
qed

end
